theory Spec2Isabelle
  imports Main "HOL-Library.Sublist"
begin

section \<open>Python values used by the sources\<close>

text \<open>
  Strings are \<open>string\<close> (lists of 8-bit characters). \<open>str.strip()\<close> without an argument
  removes the characters for which \<open>str.isspace\<close> holds; in the range of \<open>char\<close> these
  are the code points 9 to 13, 28 to 32, 133 and 160.
\<close>

definition whitespace :: "char list" where
  "whitespace =
     [CHR 0x09, CHR 0x0A, CHR 0x0B, CHR 0x0C, CHR 0x0D, CHR 0x1C, CHR 0x1D, CHR 0x1E,
      CHR 0x1F, CHR '' '', CHR 0x85, CHR 0xA0]"

definition py_isspace :: "char \<Rightarrow> bool" where
  "py_isspace c = (c \<in> set whitespace)"

definition strip :: "string \<Rightarrow> string" where
  "strip s = rev (dropWhile py_isspace (rev (dropWhile py_isspace s)))"

text \<open>Truthiness of an optional string: \<open>None\<close> and the empty string are falsy.\<close>

fun truthy :: "string option \<Rightarrow> bool" where
  "truthy None = False"
| "truthy (Some s) = (s \<noteq> [])"

text \<open>
  The exceptions the sources can meet, each with the text \<open>str(e)\<close> gives. All are
  subclasses of \<open>Exception\<close>; \<open>RequestException\<close> is the class the TTS client retries on.
\<close>

datatype exception =
    TypeError string
  | RequestException string
  | OtherException string

fun str_of_exception :: "exception \<Rightarrow> string" where
  "str_of_exception (TypeError s) = s"
| "str_of_exception (RequestException s) = s"
| "str_of_exception (OtherException s) = s"


section \<open>The event stream (\<open>backend/ai_agent.py\<close>, \<open>app.py\<close>)\<close>

text \<open>
  A tool call is a dictionary; the parser reads only its \<open>name\<close> entry with \<open>.get\<close>, so a
  missing entry and \<open>None\<close> are both \<open>None\<close> here.
\<close>

datatype tool_call = ToolCall (tc_name: "string option")

text \<open>A message's \<open>content\<close> is a string or a list of content blocks.\<close>

datatype msg_content = Str string | Blocks "string list"

text \<open>
  The LangChain message classes. Only \<open>AIMessage\<close> has the attribute \<open>tool_calls\<close>.
\<close>

datatype base_message =
    AIMessage msg_content "tool_call list"
  | ToolMessage msg_content
  | HumanMessage msg_content
  | SystemMessage msg_content

fun content :: "base_message \<Rightarrow> msg_content" where
  "content (AIMessage c tcs) = c"
| "content (ToolMessage c) = c"
| "content (HumanMessage c) = c"
| "content (SystemMessage c) = c"

text \<open>\<open>hasattr(msg, 'tool_calls')\<close> and the attribute's value.\<close>

fun tool_calls :: "base_message \<Rightarrow> tool_call list option" where
  "tool_calls (AIMessage c tcs) = Some tcs"
| "tool_calls _ = None"

text \<open>
  An element of a message list is a \<open>BaseMessage\<close> or some other object (a raw dictionary,
  a tuple, \<open>None\<close>), for which \<open>isinstance(msg, BaseMessage)\<close> is false.
\<close>

datatype item = Message base_message | NotAMessage

text \<open>
  The value stored under \<open>'messages'\<close> is an iterable of items, or an object that
  \<open>list.extend\<close> cannot iterate (its type name is kept for the error text). The value
  stored under a node key of a step is a dictionary or something else. Dictionaries keep
  their insertion order: association lists, read with \<open>map_of\<close>.
\<close>

datatype messages_val = MsgList "item list" | NotIterable string

datatype node_val = Dict "(string \<times> messages_val) list" | NotADict

type_synonym step = "(string \<times> node_val) list"

text \<open>
  \<open>k in step and isinstance(step[k], dict) and 'messages' in step[k]\<close>, returning
  \<open>step[k]['messages']\<close> when the test holds.
\<close>

fun node_messages :: "node_val option \<Rightarrow> messages_val option" where
  "node_messages (Some (Dict d)) = map_of d ''messages''"
| "node_messages _ = None"

fun extend :: "item list \<Rightarrow> messages_val \<Rightarrow> exception + item list" where
  "extend xs (MsgList ys) = Inr (xs @ ys)"
| "extend xs (NotIterable ty) = Inl (TypeError ([CHR 0x27] @ ty @ ''' object is not iterable''))"

text \<open>The \<open>if\<close>/\<open>elif\<close> that fills \<open>messages_to_process\<close> for one step.\<close>

definition messages_to_process :: "step \<Rightarrow> exception + item list" where
  "messages_to_process step =
     (case node_messages (map_of step ''__root__'') of
        Some v \<Rightarrow> extend [] v
      | None \<Rightarrow>
          (case node_messages (map_of step ''agent'') of
             Some v \<Rightarrow> extend [] v
           | None \<Rightarrow> Inr []))"

text \<open>
  The body of the inner loop, on the pair \<open>(tool_called_name, final_response)\<close>: the name
  of \<open>tool_calls[0]\<close> overwrites \<open>tool_called_name\<close> when the list is non-empty and the name
  is truthy; a string content is appended to \<open>final_response\<close>.
\<close>

fun process_msg :: "string \<times> string \<Rightarrow> item \<Rightarrow> string \<times> string" where
  "process_msg (tool_called_name, final_response) NotAMessage =
     (tool_called_name, final_response)"
| "process_msg (tool_called_name, final_response) (Message msg) =
     ((case tool_calls msg of
         Some (tc # rest) \<Rightarrow>
           (case tc_name tc of
              Some n \<Rightarrow> (if n \<noteq> [] then n else tool_called_name)
            | None \<Rightarrow> tool_called_name)
       | _ \<Rightarrow> tool_called_name),
      (case content msg of
         Str s \<Rightarrow> final_response @ s
       | Blocks bs \<Rightarrow> final_response))"

text \<open>The outer loop over the steps of the stream; an exception ends it.\<close>

fun parse_loop :: "string \<times> string \<Rightarrow> step list \<Rightarrow> exception + string \<times> string" where
  "parse_loop st [] = Inr st"
| "parse_loop st (step # rest) =
     (case messages_to_process step of
        Inl e \<Rightarrow> Inl e
      | Inr msgs \<Rightarrow> parse_loop (foldl process_msg st msgs) rest)"

definition parse_response :: "step list \<Rightarrow> exception + string \<times> string" where
  "parse_response stream =
     (case parse_loop (''None'', '''') stream of
        Inl e \<Rightarrow> Inl e
      | Inr (tool_called_name, final_response) \<Rightarrow>
          Inr (tool_called_name, strip final_response))"

subsection \<open>What the parser reads from a stream, stated without the loop state\<close>

text \<open>
  The name a single message requests: the \<open>name\<close> of the first entry of a non-empty
  \<open>tool_calls\<close> list, when that name is a non-empty string.
\<close>

fun request_name :: "item \<Rightarrow> string option" where
  "request_name (Message (AIMessage c (ToolCall (Some n) # rest))) =
     (if n \<noteq> [] then Some n else None)"
| "request_name _ = None"

text \<open>The text a single message carries: its content when that is a string.\<close>

fun text_of :: "item \<Rightarrow> string" where
  "text_of (Message msg) = (case content msg of Str s \<Rightarrow> s | Blocks bs \<Rightarrow> [])"
| "text_of NotAMessage = []"

text \<open>
  The messages the parser selects from the whole stream, in arrival order: for each step
  the list \<open>messages_to_process\<close> builds.
\<close>

fun all_messages :: "step list \<Rightarrow> exception + item list" where
  "all_messages [] = Inr []"
| "all_messages (step # rest) =
     (case messages_to_process step of
        Inl e \<Rightarrow> Inl e
      | Inr msgs \<Rightarrow>
          (case all_messages rest of Inl e \<Rightarrow> Inl e | Inr more \<Rightarrow> Inr (msgs @ more)))"

text \<open>
  Every message of a step, whatever key holds it, and the text of a whole stream read that
  way: the concatenation of every string content of every message of every event, trimmed.
\<close>

fun node_items :: "node_val \<Rightarrow> item list" where
  "node_items (Dict d) = (case map_of d ''messages'' of Some (MsgList ms) \<Rightarrow> ms | _ \<Rightarrow> [])"
| "node_items NotADict = []"

definition event_messages :: "step \<Rightarrow> item list" where
  "event_messages step = concat (map (\<lambda>(k, v). node_items v) step)"

definition every_content_text :: "step list \<Rightarrow> string" where
  "every_content_text stream = strip (concat (map text_of (concat (map event_messages stream))))"

text \<open>A step that holds one message list under one key.\<close>

definition update :: "string \<Rightarrow> item list \<Rightarrow> step" where
  "update k ms = [(k, Dict [(''messages'', MsgList ms)])]"

text \<open>An assistant message that requests one tool and carries no text.\<close>

definition tool_request :: "string \<Rightarrow> item" where
  "tool_request n = Message (AIMessage (Str '''') [ToolCall (Some n)])"

definition two_request_stream :: "step list" where
  "two_request_stream =
     [update ''agent'' [tool_request ''ask_mental_health_specialist''],
      update ''agent'' [tool_request ''call_emergency_services'']]"

definition root_and_agent_stream :: "step list" where
  "root_and_agent_stream =
     [[(''__root__'', Dict [(''messages'', MsgList [Message (AIMessage (Str ''Hi '') [])])]),
       (''agent'', Dict [(''messages'', MsgList [Message (AIMessage (Str ''there'') [])])])]]"

text \<open>
  A request for \<open>call_emergency_services\<close> in an \<open>agent\<close> event, followed by the tool's
  result in an event keyed \<open>tools\<close>, the key of the node that runs the tools.
\<close>

definition tools_result_stream :: "step list" where
  "tools_result_stream =
     [update ''agent'' [tool_request ''call_emergency_services''],
      update ''tools'' [Message (ToolMessage (Str ''Calling now''))]]"


section \<open>Tool layer\<close>

subsection \<open>\<open>backend/tools.py\<close> and the tools of \<open>backend/ai_agent.py\<close>\<close>

text \<open>
  \<open>ollama.chat\<close> is the provider: it raises, or returns a response whose
  \<open>['message']['content']\<close> is a string (\<open>Some\<close>) or cannot be read and stripped (\<open>None\<close>:
  the subscript or \<open>.strip()\<close> raises inside the \<open>try\<close>). The request is the model name
  and the two role/content messages; the sampling options are fixed numbers and are left
  out. The persona instruction is a fixed literal of the source and a parameter here.
\<close>

type_synonym ollama = "string \<Rightarrow> (string \<times> string) list \<Rightarrow> exception + string option"

definition query_medgemma :: "ollama \<Rightarrow> string \<Rightarrow> string \<Rightarrow> exception + string" where
  "query_medgemma ollama_chat system_prompt prompt =
     (case ollama_chat ''alibayram/medgemma:4b''
             [(''system'', system_prompt), (''user'', prompt)] of
        Inr (Some c) \<Rightarrow> Inr (strip c)
      | Inr None \<Rightarrow>
          Inr ''I'm having technical difficulties right now, but I want you to know your feelings matter. Please try again later.''
      | Inl e \<Rightarrow>
          Inr ''I'm having technical difficulties right now, but I want you to know your feelings matter. Please try again later.'')"

definition backend_ask_mental_health_specialist ::
  "ollama \<Rightarrow> string \<Rightarrow> string \<Rightarrow> exception + string" where
  "backend_ask_mental_health_specialist ollama_chat system_prompt prompt =
     query_medgemma ollama_chat system_prompt prompt"

text \<open>
  The three telephony settings, and the Twilio client: \<open>Client(sid, token)\<close> followed by
  \<open>calls.create(to, from_, url)\<close> raises or returns the SID of the call. The backend
  imports the settings from its \<open>config\<close> module and \<open>app.py\<close> reads them from the
  environment; both are an argument here. The \<open>print\<close> of the error text is left out.
\<close>

record twilio_config =
  TWILIO_ACCOUNT_SID :: "string option"
  TWILIO_AUTH_TOKEN :: "string option"
  TWILIO_FROM_NUMBER :: "string option"

type_synonym twilio =
  "string option \<Rightarrow> string option \<Rightarrow> string \<Rightarrow> string option \<Rightarrow> string \<Rightarrow> exception + string"

definition call_emergency_contact :: "twilio_config \<Rightarrow> twilio \<Rightarrow> string \<Rightarrow> exception + string" where
  "call_emergency_contact config Client phone =
     (case Client (TWILIO_ACCOUNT_SID config) (TWILIO_AUTH_TOKEN config) phone
             (TWILIO_FROM_NUMBER config) ''http://demo.twilio.com/docs/voice.xml'' of
        Inr sid \<Rightarrow>
          Inr (''A critical situation alert has been successfully triggered. The emergency helpline is now calling the number: ''
               @ phone @ ''. The call SID is '' @ sid @ ''. Please wait a moment.'')
      | Inl e \<Rightarrow>
          Inr (''Emergency call attempt failed. Error: '' @ str_of_exception e
               @ ''. Please contact a local emergency service immediately by dialing 911 (or your local equivalent).''))"

definition backend_call_emergency_services ::
  "twilio_config \<Rightarrow> twilio \<Rightarrow> string \<Rightarrow> exception + string" where
  "backend_call_emergency_services config Client phone = call_emergency_contact config Client phone"

subsection \<open>The tools of \<open>app.py\<close>\<close>

text \<open>
  \<open>therapist_llm\<close> is \<open>None\<close> without an API key. \<open>invoke\<close> raises or returns a response
  whose \<open>content\<close> is \<open>None\<close>, a string or a list; \<open>(resp.content or "").strip()\<close> raises
  \<open>AttributeError\<close> inside the \<open>try\<close> on a non-empty list.
\<close>

type_synonym chat_model = "base_message list \<Rightarrow> exception + msg_content option"

definition ask_mental_health_specialist ::
  "chat_model option \<Rightarrow> string \<Rightarrow> string \<Rightarrow> exception + string" where
  "ask_mental_health_specialist therapist_llm system_prompt prompt =
     (case therapist_llm of
        None \<Rightarrow>
          Inr ''The assistant is not fully configured (missing GROQ_API_KEY). Please try again after the server is configured.''
      | Some llm \<Rightarrow>
          (case llm [SystemMessage (Str system_prompt), HumanMessage (Str prompt)] of
             Inr None \<Rightarrow> Inr (strip '''')
           | Inr (Some (Str s)) \<Rightarrow> Inr (strip s)
           | Inr (Some (Blocks [])) \<Rightarrow> Inr (strip '''')
           | Inr (Some (Blocks (b # bs))) \<Rightarrow>
               Inr ''I'm having technical difficulties right now, but I want you to know your feelings matter. Please try again later.''
           | Inl e \<Rightarrow>
               Inr ''I'm having technical difficulties right now, but I want you to know your feelings matter. Please try again later.''))"

text \<open>\<open>TwilioClient\<close> is \<open>None\<close> when the import of the Twilio package failed.\<close>

definition call_emergency_services ::
  "twilio_config \<Rightarrow> twilio option \<Rightarrow> string \<Rightarrow> exception + string" where
  "call_emergency_services config TwilioClient phone =
     (if \<not> (truthy (TWILIO_ACCOUNT_SID config) \<and> truthy (TWILIO_AUTH_TOKEN config)
             \<and> truthy (TWILIO_FROM_NUMBER config) \<and> TwilioClient \<noteq> None)
      then
        Inr ''Emergency call could not be initiated because telephony is not configured. Please dial your local emergency number immediately.''
      else
        (case TwilioClient of
           Some client \<Rightarrow>
             (case client (TWILIO_ACCOUNT_SID config) (TWILIO_AUTH_TOKEN config) phone
                     (TWILIO_FROM_NUMBER config) ''http://demo.twilio.com/docs/voice.xml'' of
                Inr sid \<Rightarrow>
                  Inr (''A critical situation alert has been triggered. The emergency helpline is now calling ''
                       @ phone @ ''. Call SID: '' @ sid @ ''. Please stay safe and on the line.'')
              | Inl e \<Rightarrow>
                  Inr (''Emergency call attempt failed (error: '' @ str_of_exception e
                       @ ''). Please contact your local emergency services immediately.''))
         | None \<Rightarrow>
             Inr ''Emergency call could not be initiated because telephony is not configured. Please dial your local emergency number immediately.''))"

text \<open>The fixed fallback of the specialist tool, and the settings with nothing configured.\<close>

definition fallback_text :: string where
  "fallback_text =
     ''I'm having technical difficulties right now, but I want you to know your feelings matter. Please try again later.''"

definition no_credentials :: twilio_config where
  "no_credentials =
     \<lparr>TWILIO_ACCOUNT_SID = None, TWILIO_AUTH_TOKEN = None, TWILIO_FROM_NUMBER = None\<rparr>"

text \<open>
  A Twilio client as the library behaves on its credentials: it refuses to be built
  without an account SID and a token, and otherwise places the call.
\<close>

definition credential_checking_client :: twilio where
  "credential_checking_client sid token to_number from_number url =
     (if truthy sid \<and> truthy token then Inr ''CA0001''
      else Inl (OtherException ''Credentials are required to create a TwilioClient''))"


section \<open>Session and transport shim (\<open>backend/main.py\<close>)\<close>

datatype mode = Chat | Voice

record Query =
  message :: string
  session_id :: string
  input_mode :: mode
  response_mode :: "mode option"

record StartSessionRequest =
  req_name :: string
  req_phone :: string

record StartSessionResponse =
  new_session_id :: string
  greeting :: string

text \<open>The entry stored for a session, and the store \<open>SESSIONS\<close>.\<close>

record session =
  name :: string
  phone :: string

type_synonym sessions = "string \<rightharpoonup> session"

text \<open>The dictionary \<open>ask_question\<close> returns.\<close>

record AskResponse =
  response :: string
  tool_called :: string
  chosen_response_mode :: mode

text \<open>
  \<open>start_session\<close>: the identifier is \<open>str(uuid.uuid4())\<close>, drawn outside the program and
  an argument here. The handler writes one entry of the store and returns the greeting.
\<close>

definition start_session ::
  "string \<Rightarrow> StartSessionRequest \<Rightarrow> sessions \<Rightarrow> StartSessionResponse \<times> sessions" where
  "start_session uuid4 req SESSIONS =
     (\<lparr>new_session_id = uuid4,
       greeting = ''Hello '' @ req_name req
         @ '', I'm Friday. We can communicate in two modes: chat or voice. You can send messages by typing or speaking, and choose how you'd like me to respond.''\<rparr>,
      SESSIONS(uuid4 \<mapsto> \<lparr>name = req_name req, phone = req_phone req\<rparr>))"

text \<open>The lookup at the head of \<open>ask_question\<close>: the pair \<open>(name, phone)\<close>.\<close>

definition resolve_session :: "sessions \<Rightarrow> string \<Rightarrow> string \<times> string" where
  "resolve_session SESSIONS sid =
     (case SESSIONS sid of
        Some session \<Rightarrow> (name session, phone session)
      | None \<Rightarrow> (''there'', ''''))"

definition session_context :: "string \<Rightarrow> string \<Rightarrow> string" where
  "session_context user_name user_phone =
     ''User name: '' @ user_name @ ''. User phone: '' @ user_phone
     @ ''. When using call_emergency_services(phone), always pass this exact phone number: ''
     @ user_phone @ ''. Agent name is Friday.''"

text \<open>
  The \<open>messages\<close> handed to the agent. \<open>SYSTEM_PROMPT\<close> is a fixed literal of the source
  (it holds characters outside the range of \<open>char\<close>) and a parameter here.
\<close>

definition turn_inputs :: "string \<Rightarrow> sessions \<Rightarrow> Query \<Rightarrow> (string \<times> string) list" where
  "turn_inputs SYSTEM_PROMPT SESSIONS query =
     (case resolve_session SESSIONS (session_id query) of
        (user_name, user_phone) \<Rightarrow>
          [(''system'', SYSTEM_PROMPT),
           (''system'', session_context user_name user_phone),
           (''user'', message query)])"

text \<open>
  \<open>ask_question\<close>: \<open>graph\<close> stands for \<open>graph.stream(inputs, stream_mode="updates")\<close>, the
  agent's event stream for the inputs. The handler reads the store and hands it back.
\<close>

definition ask_question ::
  "((string \<times> string) list \<Rightarrow> step list) \<Rightarrow> string \<Rightarrow> sessions \<Rightarrow> Query
     \<Rightarrow> (exception + AskResponse) \<times> sessions" where
  "ask_question graph SYSTEM_PROMPT SESSIONS query =
     (let chosen_mode = (case response_mode query of Some m \<Rightarrow> m | None \<Rightarrow> input_mode query);
          inputs = turn_inputs SYSTEM_PROMPT SESSIONS query
      in (case parse_response (graph inputs) of
            Inl e \<Rightarrow> Inl e
          | Inr (tool_called_name, final_response) \<Rightarrow>
              Inr \<lparr>response = final_response, tool_called = tool_called_name,
                   chosen_response_mode = chosen_mode\<rparr>,
          SESSIONS))"

text \<open>The server over a sequence of requests.\<close>

datatype request = StartSession string StartSessionRequest | Ask Query

fun handle ::
  "((string \<times> string) list \<Rightarrow> step list) \<Rightarrow> string \<Rightarrow> sessions \<Rightarrow> request \<Rightarrow> sessions" where
  "handle graph SYSTEM_PROMPT SESSIONS (StartSession uuid4 req) =
     snd (start_session uuid4 req SESSIONS)"
| "handle graph SYSTEM_PROMPT SESSIONS (Ask query) =
     snd (ask_question graph SYSTEM_PROMPT SESSIONS query)"

definition serve ::
  "((string \<times> string) list \<Rightarrow> step list) \<Rightarrow> string \<Rightarrow> sessions \<Rightarrow> request list \<Rightarrow> sessions" where
  "serve graph SYSTEM_PROMPT SESSIONS reqs = foldl (handle graph SYSTEM_PROMPT) SESSIONS reqs"

text \<open>An agent that answers every turn with one line of text, for concrete runs.\<close>

definition echo_graph :: "(string \<times> string) list \<Rightarrow> step list" where
  "echo_graph inputs = [update ''agent'' [Message (AIMessage (Str ''Hello'') [])]]"


section \<open>The text-to-speech client (\<open>frontend.py\<close>)\<close>

text \<open>
  What the user interface and the clock see of one call, in order: the Streamlit
  messages, each HTTP request, each \<open>time.sleep\<close> with its seconds, the audio played
  (data, MIME type, sample rate).
\<close>

datatype effect =
    Info string
  | Warning string
  | Error string
  | Success string
  | Request
  | Sleep nat
  | Audio string string nat

text \<open>
  One pass through the body of the \<open>try\<close> up to the test of the audio part: an exception
  (of \<open>requests.post\<close>, \<open>raise_for_status\<close>, \<open>json\<close> or the chain of \<open>get\<close>), or the
  pair \<open>(audio_data_b64, mime_type)\<close> read from the first part of the response.
\<close>

datatype attempt = Raises exception | Part "string option" "string option"

text \<open>Decimal digits of a number, as an f-string prints it.\<close>

fun str_of_nat :: "nat \<Rightarrow> string" where
  "str_of_nat n =
     (if n < 10 then [char_of (48 + n)]
      else str_of_nat (n div 10) @ [char_of (48 + n mod 10)])"

declare str_of_nat.simps [simp del]

definition TTS_MODEL :: string where
  "TTS_MODEL = ''gemini-2.5-flash-preview-tts''"

definition max_retries :: nat where
  "max_retries = 3"

text \<open>
  The body of the \<open>try\<close> for attempt \<open>i\<close>: an exception, or the effects and the value
  returned. \<open>post text voice i\<close> is the outcome of the request for the payload built
  from \<open>text_to_speak\<close> and \<open>voice_name\<close>; \<open>b64decode\<close> and the sample rate read from
  the MIME type are the library's.
\<close>

definition try_body ::
  "(string \<Rightarrow> string \<Rightarrow> nat \<Rightarrow> attempt) \<Rightarrow> (string \<Rightarrow> exception + string) \<Rightarrow> (string \<Rightarrow> nat)
     \<Rightarrow> string \<Rightarrow> string \<Rightarrow> nat \<Rightarrow> exception + effect list \<times> bool" where
  "try_body post b64decode rate_of text_to_speak voice_name i =
     (case post text_to_speak voice_name i of
        Raises e \<Rightarrow> Inl e
      | Part audio_data_b64 mime_type \<Rightarrow>
          (if truthy audio_data_b64 \<and> truthy mime_type
               \<and> prefix ''audio/L16'' (case mime_type of Some m \<Rightarrow> m | None \<Rightarrow> [])
           then
             (case b64decode (case audio_data_b64 of Some d \<Rightarrow> d | None \<Rightarrow> []) of
                Inl e \<Rightarrow> Inl e
              | Inr pcm_data \<Rightarrow>
                  Inr ([Audio pcm_data (case mime_type of Some m \<Rightarrow> m | None \<Rightarrow> [])
                          (rate_of (case mime_type of Some m \<Rightarrow> m | None \<Rightarrow> [])),
                        Success ''Voice response played successfully.''], True))
           else Inr ([Error ''TTS API response missing audio data.''], False)))"

text \<open>
  The \<open>for i in range(max_retries)\<close> loop over the indices still to run, with its two
  \<open>except\<close> clauses. The result is the effects, in order, and the returned Boolean.
\<close>

fun tts_loop ::
  "(string \<Rightarrow> string \<Rightarrow> nat \<Rightarrow> attempt) \<Rightarrow> (string \<Rightarrow> exception + string) \<Rightarrow> (string \<Rightarrow> nat)
     \<Rightarrow> string \<Rightarrow> string \<Rightarrow> nat list \<Rightarrow> effect list \<times> bool" where
  "tts_loop post b64decode rate_of text_to_speak voice_name [] = ([], False)"
| "tts_loop post b64decode rate_of text_to_speak voice_name (i # rest) =
     (case try_body post b64decode rate_of text_to_speak voice_name i of
        Inr (effects, result) \<Rightarrow> (Request # effects, result)
      | Inl (RequestException e) \<Rightarrow>
          (if i < max_retries - 1 then
             (case tts_loop post b64decode rate_of text_to_speak voice_name rest of
                (effects, result) \<Rightarrow>
                  (Request
                   # Warning (''TTS API failed (Attempt '' @ str_of_nat (i + 1) @ ''/''
                              @ str_of_nat max_retries @ ''). Retrying in ''
                              @ str_of_nat (2 ^ i) @ '' seconds...'')
                   # Sleep (2 ^ i) # effects, result))
           else
             ([Request,
               Error (''TTS API failed after multiple retries. Please check the backend service: ''
                      @ e)], False))
      | Inl e \<Rightarrow>
          ([Request,
            Error (''An unexpected error occurred during TTS processing: ''
                   @ str_of_exception e)], False))"

definition handle_tts_generation_and_play ::
  "(string \<Rightarrow> string \<Rightarrow> nat \<Rightarrow> attempt) \<Rightarrow> (string \<Rightarrow> exception + string) \<Rightarrow> (string \<Rightarrow> nat)
     \<Rightarrow> string \<Rightarrow> string \<Rightarrow> effect list \<times> bool" where
  "handle_tts_generation_and_play post b64decode rate_of text_to_speak voice_name =
     (case tts_loop post b64decode rate_of text_to_speak voice_name [0..<max_retries] of
        (effects, result) \<Rightarrow>
          (Info (''Generating voice response using model: '' @ TTS_MODEL @ ''...'') # effects,
           result))"

text \<open>The delays slept and the requests sent during a run.\<close>

fun delays :: "effect list \<Rightarrow> nat list" where
  "delays [] = []"
| "delays (Sleep n # es) = n # delays es"
| "delays (e # es) = delays es"

definition requests_sent :: "effect list \<Rightarrow> nat" where
  "requests_sent es = length (filter (\<lambda>e. e = Request) es)"

text \<open>A network that times out on every attempt.\<close>

definition always_timeout :: "string \<Rightarrow> string \<Rightarrow> nat \<Rightarrow> attempt" where
  "always_timeout text_to_speak voice_name i = Raises (RequestException ''Read timed out.'')"

definition no_decode :: "string \<Rightarrow> exception + string" where
  "no_decode s = Inr s"

definition default_rate :: "string \<Rightarrow> nat" where
  "default_rate m = 24000"


section \<open>Components of a turn result and concrete providers\<close>

text \<open>The two components of what \<open>parse_response\<close> returns.\<close>

definition invoked_tool :: "step list \<Rightarrow> exception + string" where
  "invoked_tool stream = map_sum id fst (parse_response stream)"

definition final_text :: "step list \<Rightarrow> exception + string" where
  "final_text stream = map_sum id snd (parse_response stream)"

text \<open>The tool requests of a list of messages, in order.\<close>

definition requests :: "item list \<Rightarrow> string list" where
  "requests ms = List.map_filter request_name ms"

text \<open>Providers that fail on every call.\<close>

definition failing_ollama :: ollama where
  "failing_ollama model_name msgs = Inl (OtherException ''connection refused'')"

definition failing_llm :: chat_model where
  "failing_llm msgs = Inl (OtherException ''401 Unauthorized'')"


section \<open>The parser, characterised\<close>

lemma process_msg_eq:
  "process_msg (t, f) x = (case request_name x of Some n \<Rightarrow> n | None \<Rightarrow> t, f @ text_of x)"
  by (cases x rule: request_name.cases) (auto split: msg_content.splits)

lemma foldl_process_msg:
  "foldl process_msg (t, f) ms = (last (t # requests ms), f @ concat (map text_of ms))"
proof (induction ms arbitrary: t f)
  case Nil
  show ?case by (simp add: requests_def List.map_filter_simps)
next
  case (Cons x xs)
  show ?case
    by (cases "request_name x")
       (simp_all add: process_msg_eq Cons.IH requests_def List.map_filter_simps)
qed

lemma parse_loop_all_messages:
  "parse_loop st stream =
     (case all_messages stream of Inl e \<Rightarrow> Inl e | Inr ms \<Rightarrow> Inr (foldl process_msg st ms))"
proof (induction stream arbitrary: st)
  case Nil
  show ?case by simp
next
  case (Cons step rest)
  show ?case
    by (simp add: Cons.IH split: sum.splits)
qed

lemma parse_response_char:
  "parse_response stream =
     (case all_messages stream of
        Inl e \<Rightarrow> Inl e
      | Inr ms \<Rightarrow> Inr (last (''None'' # requests ms), strip (concat (map text_of ms))))"
  by (simp add: parse_response_def parse_loop_all_messages foldl_process_msg split: sum.splits)

lemma all_messages_append:
  "all_messages (xs @ ys) =
     (case all_messages xs of
        Inl e \<Rightarrow> Inl e
      | Inr a \<Rightarrow> (case all_messages ys of Inl e \<Rightarrow> Inl e | Inr b \<Rightarrow> Inr (a @ b)))"
  by (induction xs) (auto split: sum.splits)

lemma messages_to_process_update:
  "k = ''__root__'' \<or> k = ''agent'' \<Longrightarrow> messages_to_process (update k ms) = Inr ms"
  by (auto simp: messages_to_process_def update_def)

text \<open>A step with neither of the two keys gives the parser nothing.\<close>

lemma messages_to_process_other_keys:
  "map_of step ''__root__'' = None \<Longrightarrow> map_of step ''agent'' = None
     \<Longrightarrow> messages_to_process step = Inr []"
  by (simp add: messages_to_process_def)

text \<open>An empty stream gives \<open>("None", "")\<close>.\<close>

lemma parse_response_empty: "parse_response [] = Inr (''None'', '''')"
  by (simp add: parse_response_def strip_def)

lemma strip_literals:
  "strip [] = []" "strip ''Hi there'' = ''Hi there''" "strip ''Hi '' = ''Hi''"
  "strip ''Calling now'' = ''Calling now''" "strip ''Hello'' = ''Hello''"
  by (simp_all add: strip_def py_isspace_def whitespace_def)


section \<open>Claims about the parser\<close>

text \<open>
  Claim C1 as the specification states it: with two or more tool requests in the stream,
  \<open>invoked_tool\<close> is the first one. The stream \<open>two_request_stream\<close> requests
  \<open>ask_mental_health_specialist\<close> in its first event and \<open>call_emergency_services\<close> in its
  second; the parser returns the second name, because each request overwrites
  \<open>tool_called_name\<close>.
\<close>

theorem first_request_overwritten:
  "requests [tool_request ''ask_mental_health_specialist'', tool_request ''call_emergency_services'']
     = [''ask_mental_health_specialist'', ''call_emergency_services'']
   \<and> all_messages two_request_stream
     = Inr [tool_request ''ask_mental_health_specialist'', tool_request ''call_emergency_services'']
   \<and> invoked_tool two_request_stream = Inr ''call_emergency_services''
   \<and> invoked_tool two_request_stream \<noteq> Inr ''ask_mental_health_specialist''"
  by (simp add: invoked_tool_def parse_response_char two_request_stream_def
        messages_to_process_update requests_def tool_request_def List.map_filter_simps strip_literals)

text \<open>
  Claim C1, amended: when the selected messages of a stream carry at least one tool
  request, \<open>invoked_tool\<close> is the last of them in stream order, where the request of a
  message is the name of the first entry of its \<open>tool_calls\<close>.
\<close>

theorem invoked_tool_last_request:
  assumes "all_messages stream = Inr ms" and "requests ms \<noteq> []"
  shows "invoked_tool stream = Inr (last (requests ms))"
  using assms by (simp add: invoked_tool_def parse_response_char)

text \<open>The amended claim C1 on the stream with two requests.\<close>

theorem invoked_tool_last_request_witness:
  "all_messages two_request_stream
     = Inr [tool_request ''ask_mental_health_specialist'', tool_request ''call_emergency_services'']
   \<and> requests [tool_request ''ask_mental_health_specialist'', tool_request ''call_emergency_services'']
     \<noteq> []
   \<and> invoked_tool two_request_stream = Inr ''call_emergency_services''"
proof -
  have h: "all_messages two_request_stream
     = Inr [tool_request ''ask_mental_health_specialist'', tool_request ''call_emergency_services'']"
    by (simp add: two_request_stream_def messages_to_process_update)
  have n: "requests [tool_request ''ask_mental_health_specialist'',
                     tool_request ''call_emergency_services''] \<noteq> []"
    by (simp add: requests_def tool_request_def List.map_filter_simps)
  show ?thesis
    using h n invoked_tool_last_request [OF h n]
    by (simp add: requests_def tool_request_def List.map_filter_simps)
qed

text \<open>
  Claim C4 as the specification states it: \<open>final_text\<close> is the trimmed concatenation of
  every string content of every message of every event. The one event of
  \<open>root_and_agent_stream\<close> holds the message \<open>"Hi "\<close> under \<open>__root__\<close> and the message
  \<open>"there"\<close> under \<open>agent\<close>; the parser returns \<open>"Hi"\<close>, not \<open>"Hi there"\<close>.
\<close>

theorem agent_text_dropped:
  "final_text root_and_agent_stream = Inr ''Hi''
   \<and> every_content_text root_and_agent_stream = ''Hi there''
   \<and> final_text root_and_agent_stream \<noteq> Inr (every_content_text root_and_agent_stream)"
  by (simp add: final_text_def parse_response_char root_and_agent_stream_def
        messages_to_process_def every_content_text_def event_messages_def strip_literals)

text \<open>
  Claim C4, amended: \<open>final_text\<close> is the concatenation, in arrival order and with no
  separator, of the string contents of the messages the parser selects from each event
  (the list under \<open>__root__\<close> when the event has one, otherwise the list under \<open>agent\<close>),
  trimmed; one event that carries the fragments \<open>"Hi "\<close> and \<open>"there"\<close> under either key
  yields \<open>("None", "Hi there")\<close>.
\<close>

theorem final_text_selected_messages:
  "(\<forall>ms. all_messages stream = Inr ms \<longrightarrow>
       final_text stream = Inr (strip (concat (map text_of ms))))
   \<and> parse_response
        [update ''__root__'' [Message (AIMessage (Str ''Hi '') []), Message (AIMessage (Str ''there'') [])]]
      = Inr (''None'', ''Hi there'')
   \<and> parse_response
        [update ''agent'' [Message (AIMessage (Str ''Hi '') []), Message (AIMessage (Str ''there'') [])]]
      = Inr (''None'', ''Hi there'')"
  by (simp add: final_text_def parse_response_char messages_to_process_update requests_def
        List.map_filter_simps strip_literals)

text \<open>The amended claim C4 on the stream whose event has both keys.\<close>

theorem final_text_selected_messages_witness:
  "all_messages root_and_agent_stream = Inr [Message (AIMessage (Str ''Hi '') [])]
   \<and> final_text root_and_agent_stream = Inr ''Hi''"
proof -
  have h: "all_messages root_and_agent_stream = Inr [Message (AIMessage (Str ''Hi '') [])]"
    by (simp add: root_and_agent_stream_def messages_to_process_def)
  from final_text_selected_messages [of root_and_agent_stream] h
  have "final_text root_and_agent_stream
          = Inr (strip (concat (map text_of [Message (AIMessage (Str ''Hi '') [])])))"
    by blast
  with h show ?thesis by (simp add: strip_literals)
qed

text \<open>
  Claim C5 as the specification states it: a request for \<open>call_emergency_services\<close>
  followed by a later tool-result event with the text \<open>"Calling now"\<close> gives
  \<open>(call_emergency_services, "Calling now")\<close>. In \<open>tools_result_stream\<close> the tool-result
  event is keyed \<open>tools\<close>; the parser reads neither of its two keys there, keeps the tool
  name and returns no text.
\<close>

theorem tools_keyed_result_dropped:
  "parse_response tools_result_stream = Inr (''call_emergency_services'', '''')
   \<and> parse_response tools_result_stream \<noteq> Inr (''call_emergency_services'', ''Calling now'')"
  by (simp add: tools_result_stream_def parse_response_char messages_to_process_update
        messages_to_process_other_keys update_def[of "''tools''"] requests_def tool_request_def
        List.map_filter_simps strip_literals)

text \<open>
  Claim C5, amended: when both events hold their message list under \<open>__root__\<close> or
  \<open>agent\<close>, an assistant message whose first tool call is \<open>call_emergency_services\<close>
  followed by a later tool-result message \<open>"Calling now"\<close> gives the tool name and the
  trimmed concatenation of the assistant message's own text and \<open>"Calling now"\<close>; with
  an assistant message that carries no text this is
  \<open>(call_emergency_services, "Calling now")\<close>. A tool-result message adds its content to
  the buffer exactly as an assistant message with the same content does.
\<close>

theorem tool_result_text_accumulated:
  assumes "k1 = ''__root__'' \<or> k1 = ''agent''" and "k2 = ''__root__'' \<or> k2 = ''agent''"
  shows "parse_response
           [update k1 [Message (AIMessage c (ToolCall (Some ''call_emergency_services'') # tcs))],
            update k2 [Message (ToolMessage (Str ''Calling now''))]]
         = Inr (''call_emergency_services'',
                strip (text_of (Message (AIMessage c (ToolCall (Some ''call_emergency_services'') # tcs)))
                       @ ''Calling now''))
       \<and> parse_response
           [update k1 [tool_request ''call_emergency_services''],
            update k2 [Message (ToolMessage (Str ''Calling now''))]]
         = Inr (''call_emergency_services'', ''Calling now'')
       \<and> process_msg st (Message (ToolMessage c')) = process_msg st (Message (AIMessage c' []))"
proof -
  have p: "process_msg st (Message (ToolMessage c')) = process_msg st (Message (AIMessage c' []))"
    by (cases st) simp
  have g: "parse_response
           [update k1 [Message (AIMessage c (ToolCall (Some ''call_emergency_services'') # tcs))],
            update k2 [Message (ToolMessage (Str ''Calling now''))]]
         = Inr (''call_emergency_services'',
                strip (text_of (Message (AIMessage c (ToolCall (Some ''call_emergency_services'') # tcs)))
                       @ ''Calling now''))"
    using assms
    by (simp add: parse_response_char messages_to_process_update requests_def
          List.map_filter_simps)
  have s: "parse_response
           [update k1 [tool_request ''call_emergency_services''],
            update k2 [Message (ToolMessage (Str ''Calling now''))]]
         = Inr (''call_emergency_services'', ''Calling now'')"
    using assms
    by (simp add: parse_response_char messages_to_process_update requests_def tool_request_def
          List.map_filter_simps strip_literals)
  from g s p show ?thesis by blast
qed

text \<open>The amended claim C5 on two events keyed \<open>agent\<close>.\<close>

theorem tool_result_text_accumulated_witness:
  "(''agent'' = ''__root__'' \<or> ''agent'' = ''agent'')
   \<and> parse_response
     [update ''agent'' [tool_request ''call_emergency_services''],
      update ''agent'' [Message (ToolMessage (Str ''Calling now''))]]
   = Inr (''call_emergency_services'', ''Calling now'')"
  using tool_result_text_accumulated [of "''agent''" "''agent''"]
  by simp

text \<open>
  Claim C10: in an event that holds a message list under \<open>__root__\<close> and another under
  \<open>agent\<close>, the parser processes the \<open>__root__\<close> list only; the result for any stream
  around that event is the result with the event cut down to its \<open>__root__\<close> list, so the
  \<open>agent\<close> messages give neither text nor a tool name.
\<close>

theorem root_shadows_agent:
  assumes "map_of step ''__root__'' = Some (Dict d)"
    and "map_of d ''messages'' = Some (MsgList ms)"
    and "map_of step ''agent'' = Some (Dict d')"
    and "map_of d' ''messages'' = Some (MsgList ms')"
  shows "messages_to_process step = Inr ms
       \<and> parse_response (before @ [step] @ after)
         = parse_response (before @ [update ''__root__'' ms] @ after)"
proof -
  have m: "messages_to_process step = Inr ms"
    using assms(1,2) by (simp add: messages_to_process_def)
  have "all_messages [step] = all_messages [update ''__root__'' ms]"
    by (simp add: m messages_to_process_update)
  then have "all_messages (before @ [step] @ after)
               = all_messages (before @ [update ''__root__'' ms] @ after)"
    by (simp only: all_messages_append)
  with m show ?thesis by (simp only: parse_response_char simp_thms)
qed

text \<open>Claim C10 on the event of \<open>root_and_agent_stream\<close>.\<close>

theorem root_shadows_agent_witness:
  "parse_response root_and_agent_stream
     = parse_response [update ''__root__'' [Message (AIMessage (Str ''Hi '') [])]]
   \<and> parse_response root_and_agent_stream = Inr (''None'', ''Hi'')"
proof -
  let ?step = "[(''__root__'', Dict [(''messages'', MsgList [Message (AIMessage (Str ''Hi '') [])])]),
       (''agent'', Dict [(''messages'', MsgList [Message (AIMessage (Str ''there'') [])])])]"
  have "parse_response ([] @ [?step] @ [])
         = parse_response ([] @ [update ''__root__'' [Message (AIMessage (Str ''Hi '') [])]] @ [])"
    using root_shadows_agent [of ?step "[(''messages'', MsgList [Message (AIMessage (Str ''Hi '') [])])]"
        "[Message (AIMessage (Str ''Hi '') [])]"
        "[(''messages'', MsgList [Message (AIMessage (Str ''there'') [])])]"
        "[Message (AIMessage (Str ''there'') [])]" "[]" "[]"]
    by simp
  then show ?thesis
    by (simp add: root_and_agent_stream_def parse_response_char messages_to_process_update
          requests_def List.map_filter_simps strip_literals)
qed


section \<open>Claims about the tool layer\<close>

text \<open>
  The emergency tool of \<open>app.py\<close> tests the three settings and the client before it
  attempts anything: when one is missing it returns the fixed text that tells the user to
  dial the local emergency number.
\<close>

lemma app_call_emergency_services_unconfigured:
  assumes "\<not> (truthy (TWILIO_ACCOUNT_SID config) \<and> truthy (TWILIO_AUTH_TOKEN config)
              \<and> truthy (TWILIO_FROM_NUMBER config)) \<or> TwilioClient = None"
  shows "call_emergency_services config TwilioClient number =
           Inr ''Emergency call could not be initiated because telephony is not configured. Please dial your local emergency number immediately.''"
  using assms by (auto simp: call_emergency_services_def)

lemma unconfigured_text_names_local_number:
  "sublist ''local emergency number''
     ''Emergency call could not be initiated because telephony is not configured. Please dial your local emergency number immediately.''"
  by code_simp

text \<open>
  Claim C2 on the emergency tool of the backend
  (\<open>backend/ai_agent.py\<close>, \<open>backend/tools.py\<close>): with no credentials it tests nothing,
  attempts the call, and returns the text of the failed attempt, which embeds the
  client's error and does not contain \<open>"local emergency number"\<close>.
\<close>

theorem backend_emergency_call_unconfigured:
  "backend_call_emergency_services no_credentials credential_checking_client ''+15550001111''
     = Inr ''Emergency call attempt failed. Error: Credentials are required to create a TwilioClient. Please contact a local emergency service immediately by dialing 911 (or your local equivalent).''
   \<and> \<not> sublist ''local emergency number''
        ''Emergency call attempt failed. Error: Credentials are required to create a TwilioClient. Please contact a local emergency service immediately by dialing 911 (or your local equivalent).''"
proof
  show "backend_call_emergency_services no_credentials credential_checking_client ''+15550001111''
     = Inr ''Emergency call attempt failed. Error: Credentials are required to create a TwilioClient. Please contact a local emergency service immediately by dialing 911 (or your local equivalent).''"
    by (simp add: backend_call_emergency_services_def call_emergency_contact_def
          no_credentials_def credential_checking_client_def)
  show "\<not> sublist ''local emergency number''
        ''Emergency call attempt failed. Error: Credentials are required to create a TwilioClient. Please contact a local emergency service immediately by dialing 911 (or your local equivalent).''"
    by code_simp
qed

text \<open>Neither emergency tool raises, whatever the client does.\<close>

lemma emergency_tools_return:
  "\<exists>s. call_emergency_services config TwilioClient number = Inr s \<and> s \<noteq> []"
  "\<exists>s. backend_call_emergency_services config Client number = Inr s \<and> s \<noteq> []"
  by (auto simp: call_emergency_services_def backend_call_emergency_services_def
        call_emergency_contact_def split: option.splits sum.splits)

text \<open>
  Claim C3: when the provider call fails, the specialist tool returns the fixed fallback
  text, in the backend (\<open>query_medgemma\<close> and the tool that wraps it) and in \<open>app.py\<close>.
\<close>

theorem specialist_fallback_on_failure:
  assumes "ollama_chat ''alibayram/medgemma:4b'' [(''system'', persona), (''user'', prompt)] = Inl e"
    and "llm [SystemMessage (Str persona'), HumanMessage (Str prompt)] = Inl e'"
  shows "query_medgemma ollama_chat persona prompt = Inr fallback_text
       \<and> backend_ask_mental_health_specialist ollama_chat persona prompt = Inr fallback_text
       \<and> ask_mental_health_specialist (Some llm) persona' prompt = Inr fallback_text"
  using assms
  by (simp add: query_medgemma_def backend_ask_mental_health_specialist_def
        ask_mental_health_specialist_def fallback_text_def)

text \<open>Claim C3 with providers that refuse every call.\<close>

theorem specialist_fallback_on_failure_witness:
  "query_medgemma failing_ollama ''persona'' ''I feel low'' = Inr fallback_text
   \<and> backend_ask_mental_health_specialist failing_ollama ''persona'' ''I feel low'' = Inr fallback_text
   \<and> ask_mental_health_specialist (Some failing_llm) ''persona'' ''I feel low'' = Inr fallback_text"
  using specialist_fallback_on_failure [of failing_ollama "''persona''" "''I feel low''"
      "OtherException ''connection refused''" failing_llm "''persona''"
      "OtherException ''401 Unauthorized''"]
  by (simp add: failing_ollama_def failing_llm_def)

text \<open>The specialist tool returns text in every case.\<close>

lemma specialist_tools_return:
  "\<exists>s. query_medgemma ollama_chat persona prompt = Inr s"
  "\<exists>s. ask_mental_health_specialist therapist_llm persona prompt = Inr s"
  by (auto simp: query_medgemma_def ask_mental_health_specialist_def
        split: option.splits sum.splits msg_content.splits list.splits)


section \<open>Claims about the session shim\<close>

text \<open>
  Claim C6: for a session identifier that is not in the store, the name resolves to
  \<open>"there"\<close> and the phone to the empty string, the turn runs on the inputs built from
  these defaults, and the handler returns a response whenever the parse of the agent's
  stream does.
\<close>

theorem unknown_session_defaults:
  assumes "SESSIONS (session_id query) = None"
  shows "resolve_session SESSIONS (session_id query) = (''there'', '''')
       \<and> turn_inputs SYSTEM_PROMPT SESSIONS query
           = [(''system'', SYSTEM_PROMPT), (''system'', session_context ''there'' ''''),
              (''user'', message query)]
       \<and> fst (ask_question graph SYSTEM_PROMPT SESSIONS query)
           = (case parse_response
                     (graph [(''system'', SYSTEM_PROMPT), (''system'', session_context ''there'' ''''),
                             (''user'', message query)]) of
                Inl e \<Rightarrow> Inl e
              | Inr (t, r) \<Rightarrow>
                  Inr \<lparr>response = r, tool_called = t,
                       chosen_response_mode =
                         (case response_mode query of Some m \<Rightarrow> m | None \<Rightarrow> input_mode query)\<rparr>)
       \<and> (\<forall>ms. all_messages
                 (graph [(''system'', SYSTEM_PROMPT), (''system'', session_context ''there'' ''''),
                         (''user'', message query)]) = Inr ms
             \<longrightarrow> (\<exists>r. fst (ask_question graph SYSTEM_PROMPT SESSIONS query) = Inr r))"
proof -
  have r: "resolve_session SESSIONS (session_id query) = (''there'', '''')"
    using assms by (simp add: resolve_session_def)
  have t: "turn_inputs SYSTEM_PROMPT SESSIONS query
           = [(''system'', SYSTEM_PROMPT), (''system'', session_context ''there'' ''''),
              (''user'', message query)]"
    by (simp add: turn_inputs_def r)
  have a: "fst (ask_question graph SYSTEM_PROMPT SESSIONS query)
           = (case parse_response
                     (graph [(''system'', SYSTEM_PROMPT), (''system'', session_context ''there'' ''''),
                             (''user'', message query)]) of
                Inl e \<Rightarrow> Inl e
              | Inr (t, r) \<Rightarrow>
                  Inr \<lparr>response = r, tool_called = t,
                       chosen_response_mode =
                         (case response_mode query of Some m \<Rightarrow> m | None \<Rightarrow> input_mode query)\<rparr>)"
    by (simp add: ask_question_def t Let_def)
  have e: "\<forall>ms. all_messages
                 (graph [(''system'', SYSTEM_PROMPT), (''system'', session_context ''there'' ''''),
                         (''user'', message query)]) = Inr ms
             \<longrightarrow> (\<exists>r. fst (ask_question graph SYSTEM_PROMPT SESSIONS query) = Inr r)"
    unfolding a by (simp add: parse_response_char)
  from r t a e show ?thesis by blast
qed

text \<open>Claim C6 on an empty store and an agent that answers \<open>"Hello"\<close>.\<close>

theorem unknown_session_defaults_witness:
  "resolve_session Map.empty ''no-such-id'' = (''there'', '''')
   \<and> fst (ask_question echo_graph ''prompt'' Map.empty
            \<lparr>message = ''hi'', session_id = ''no-such-id'', input_mode = Chat, response_mode = None\<rparr>)
      = Inr \<lparr>response = ''Hello'', tool_called = ''None'', chosen_response_mode = Chat\<rparr>"
  using unknown_session_defaults [of Map.empty
      "\<lparr>message = ''hi'', session_id = ''no-such-id'', input_mode = Chat, response_mode = None\<rparr>"
      "''prompt''" echo_graph]
  by (simp add: echo_graph_def parse_response_char messages_to_process_update requests_def
        List.map_filter_simps strip_literals)

text \<open>
  Claim C7: after \<open>start_session\<close> with a name and a phone, \<open>ask_question\<close> with the
  returned identifier resolves exactly that phone, and the instruction context handed to
  the agent holds the phone string unchanged, at both of its places.
\<close>

theorem registered_phone_verbatim:
  "new_session_id (fst (start_session uuid4 \<lparr>req_name = n, req_phone = p\<rparr> SESSIONS)) = uuid4
   \<and> resolve_session (snd (start_session uuid4 \<lparr>req_name = n, req_phone = p\<rparr> SESSIONS)) uuid4 = (n, p)
   \<and> turn_inputs SYSTEM_PROMPT (snd (start_session uuid4 \<lparr>req_name = n, req_phone = p\<rparr> SESSIONS))
        \<lparr>message = m, session_id = uuid4, input_mode = im, response_mode = rm\<rparr>
      = [(''system'', SYSTEM_PROMPT),
         (''system'', ''User name: '' @ n @ ''. User phone: '' @ p
            @ ''. When using call_emergency_services(phone), always pass this exact phone number: ''
            @ p @ ''. Agent name is Friday.''),
         (''user'', m)]
   \<and> fst (ask_question graph SYSTEM_PROMPT
             (snd (start_session uuid4 \<lparr>req_name = n, req_phone = p\<rparr> SESSIONS))
             \<lparr>message = m, session_id = uuid4, input_mode = im, response_mode = rm\<rparr>)
      = (case parse_response
                (graph [(''system'', SYSTEM_PROMPT),
                        (''system'', ''User name: '' @ n @ ''. User phone: '' @ p
                           @ ''. When using call_emergency_services(phone), always pass this exact phone number: ''
                           @ p @ ''. Agent name is Friday.''),
                        (''user'', m)]) of
           Inl e \<Rightarrow> Inl e
         | Inr (t, r) \<Rightarrow>
             Inr \<lparr>response = r, tool_called = t,
                  chosen_response_mode = (case rm of Some x \<Rightarrow> x | None \<Rightarrow> im)\<rparr>)"
  by (simp add: start_session_def resolve_session_def turn_inputs_def session_context_def
        ask_question_def Let_def split: sum.splits option.splits)

lemma ask_question_store: "snd (ask_question graph SYSTEM_PROMPT SESSIONS query) = SESSIONS"
  by (simp add: ask_question_def Let_def)

lemma serve_asks: "serve graph SYSTEM_PROMPT SESSIONS (map Ask queries) = SESSIONS"
  by (induction queries) (simp_all add: serve_def ask_question_store)

text \<open>
  Over any sequence of requests, the entry of a key is untouched unless a registration
  draws that very key.
\<close>

lemma serve_keeps_entry:
  assumes "\<forall>req \<in> set reqs. \<forall>u r. req = StartSession u r \<longrightarrow> u \<noteq> k"
  shows "serve graph SYSTEM_PROMPT SESSIONS reqs k = SESSIONS k"
  using assms
proof (induction reqs arbitrary: SESSIONS)
  case Nil
  show ?case by (simp add: serve_def)
next
  case (Cons req reqs)
  have "handle graph SYSTEM_PROMPT SESSIONS req k = SESSIONS k"
    using Cons.prems by (cases req) (auto simp: start_session_def ask_question_store)
  moreover have "serve graph SYSTEM_PROMPT (handle graph SYSTEM_PROMPT SESSIONS req) reqs k
                   = handle graph SYSTEM_PROMPT SESSIONS req k"
    using Cons.prems by (intro Cons.IH) simp
  ultimately show ?case by (simp add: serve_def)
qed

text \<open>
  Claim C8: registration writes the one entry of the new identifier; \<open>ask_question\<close>
  leaves the store as it found it, and so does any sequence of \<open>ask_question\<close> calls, for
  the entry of every identifier.
\<close>

theorem sessions_read_only_after_registration:
  "snd (start_session uuid4 req SESSIONS)
     = SESSIONS(uuid4 \<mapsto> \<lparr>name = req_name req, phone = req_phone req\<rparr>)
   \<and> snd (ask_question graph SYSTEM_PROMPT SESSIONS query) = SESSIONS
   \<and> serve graph SYSTEM_PROMPT SESSIONS (map Ask queries) = SESSIONS
   \<and> serve graph SYSTEM_PROMPT SESSIONS (map Ask queries) k = SESSIONS k"
  by (simp add: start_session_def ask_question_store serve_asks)


section \<open>Claims about the text-to-speech client\<close>

lemma str_of_nat_digits:
  "str_of_nat 1 = ''1''" "str_of_nat 2 = ''2''" "str_of_nat 3 = ''3''"
  "str_of_nat (Suc 0) = ''1''" "str_of_nat (Suc (Suc 0)) = ''2''"
  by code_simp+

lemma range_max_retries: "[0..<max_retries] = [0, 1, 2]" "[0..<3] = [0, 1, 2]"
  by (simp_all add: max_retries_def upt_rec)

text \<open>
  Claim C9 as the specification states it: delays of 1s, 2s and 4s between attempts. On a
  network that times out at every attempt the client sends three requests and sleeps
  twice, 1s and 2s; the third failure ends the call without a further delay.
\<close>

theorem tts_two_delays_only:
  "delays (fst (handle_tts_generation_and_play always_timeout no_decode default_rate ''I am here for you'' ''Kore'')) = [1, 2]
   \<and> delays (fst (handle_tts_generation_and_play always_timeout no_decode default_rate ''I am here for you'' ''Kore'')) \<noteq> [1, 2, 4]
   \<and> requests_sent (fst (handle_tts_generation_and_play always_timeout no_decode default_rate ''I am here for you'' ''Kore'')) = 3"
  by (simp add: handle_tts_generation_and_play_def range_max_retries always_timeout_def
        try_body_def max_retries_def requests_sent_def)

text \<open>
  Claim C9, amended: when every attempt fails with a request exception, the client makes
  three attempts in all (the first request and two retries), warns and sleeps 1s after
  the first failure and 2s after the second, and after the third shows an error that
  carries the last exception and returns \<open>False\<close>.
\<close>

theorem tts_three_attempts:
  assumes "post text_to_speak voice_name 0 = Raises (RequestException e0)"
    and "post text_to_speak voice_name 1 = Raises (RequestException e1)"
    and "post text_to_speak voice_name 2 = Raises (RequestException e2)"
  shows "handle_tts_generation_and_play post b64decode rate_of text_to_speak voice_name =
     ([Info ''Generating voice response using model: gemini-2.5-flash-preview-tts...'',
       Request,
       Warning ''TTS API failed (Attempt 1/3). Retrying in 1 seconds...'',
       Sleep 1,
       Request,
       Warning ''TTS API failed (Attempt 2/3). Retrying in 2 seconds...'',
       Sleep 2,
       Request,
       Error (''TTS API failed after multiple retries. Please check the backend service: '' @ e2)],
      False)"
  using assms
  by (simp add: handle_tts_generation_and_play_def range_max_retries max_retries_def
        try_body_def TTS_MODEL_def str_of_nat_digits)

text \<open>The amended claim C9 on the network that always times out.\<close>

theorem tts_three_attempts_witness:
  "handle_tts_generation_and_play always_timeout no_decode default_rate ''I am here for you'' ''Kore'' =
     ([Info ''Generating voice response using model: gemini-2.5-flash-preview-tts...'',
       Request,
       Warning ''TTS API failed (Attempt 1/3). Retrying in 1 seconds...'',
       Sleep 1,
       Request,
       Warning ''TTS API failed (Attempt 2/3). Retrying in 2 seconds...'',
       Sleep 2,
       Request,
       Error ''TTS API failed after multiple retries. Please check the backend service: Read timed out.''],
      False)"
  using tts_three_attempts [of always_timeout "''I am here for you''" "''Kore''"
      "''Read timed out.''" "''Read timed out.''" "''Read timed out.''" no_decode default_rate]
  by (simp add: always_timeout_def)

end
